theory Spec2Isabelle
  imports Complex_Main "HOL-Library.Multiset" "HOL-Library.Product_Lexorder"
begin

section \<open>Data model\<close>

text \<open>
  The emergency controller works on three document collections (users, emergency
  contacts, emergency alerts). A collection is a list of documents in insertion order;
  an ObjectId is a natural number; a date is the number of milliseconds \<open>Date.now()\<close>
  returns. Fields that occur in several schemas carry a prefix (\<open>c_\<close> contact,
  \<open>a_\<close> alert, \<open>u_\<close> user); all other fields keep the schema's name.

  A handler is a function from the request, the store and the clock reading to the
  response and the new store; requests of one user are handled one after the other.
  Strings are lists of code units below 256, taken as they are stored (the schema
  setters \<open>trim\<close> and \<open>lowercase\<close> apply to queries and writes alike), the bookkeeping
  field \<open>updatedAt\<close> is left out, and the socket event that \<open>activatePanicButton\<close> emits
  after the last save has no part in the response or the store.
\<close>

type_synonym object_id = nat
type_synonym date = int

datatype contact_relation = Family | Friend | Partner | Colleague | Guardian | Other

datatype alert_type = Panic | Medical | Accident | Harassment | OtherAlert

datatype alert_status = Active | Resolved | FalseAlarm | Cancelled

datatype channel = SMS | EMAIL | PUSH | CALL

datatype delivery_status = Pending | Sent | Delivered | Failed

datatype resolution_outcome = Safe | Assisted | Hospitalized | Unknown

record notificationPreferences =
  sms :: bool
  email :: bool
  push :: bool

record EmergencyContact =
  c_id :: object_id
  c_user :: object_id
  c_name :: string
  c_phone :: string
  c_email :: "string option"
  relation :: contact_relation
  isPrimary :: bool
  isVerified :: bool
  notificationPreferences :: notificationPreferences
  alertCount :: int
  lastAlertSent :: "date option"
  c_isActive :: bool
  c_notes :: "string option"
  c_createdAt :: date

record alert_location =
  coordinates :: "real \<times> real"
  address :: "string option"
  accuracy :: "real option"

text \<open>
  One element of \<open>notifiedContacts\<close>, as the controller builds it (\<open>notificationData\<close>):
  one object per contact, whose \<open>notificationMethod\<close> is the list of channels pushed
  so far.
\<close>

record notification =
  contact :: object_id
  notifiedAt :: date
  notificationMethod :: "channel list"
  deliveryStatus :: delivery_status

record additionalInfo =
  info_message :: "string option"
  batteryLevel :: "real option"
  networkType :: "string option"

record resolution =
  resolvedAt :: date
  resolvedBy :: object_id
  resolutionNotes :: "string option"
  outcome :: "resolution_outcome option"

text \<open>
  \<open>activatedAt\<close> has the schema default \<open>Date.now\<close> and is never cleared, so it is
  always a date; \<open>deactivatedAt\<close>, \<open>duration\<close> and \<open>resolution\<close> are absent until a
  transition sets them.
\<close>

record EmergencyAlert =
  a_id :: object_id
  a_user :: object_id
  alertType :: alert_type
  status :: alert_status
  location :: alert_location
  notifiedContacts :: "notification list"
  additionalInfo :: additionalInfo
  resolution :: "resolution option"
  activatedAt :: date
  deactivatedAt :: "date option"
  duration :: "int option"

record user_location =
  u_coordinates :: "real \<times> real"
  u_address :: "string option"
  lastUpdated :: "date option"

record User =
  u_id :: object_id
  u_name :: string
  u_phone :: string
  u_email :: string
  emergencyContacts :: "object_id list"
  u_location :: user_location

record db =
  users :: "User list"
  contacts :: "EmergencyContact list"
  alerts :: "EmergencyAlert list"

subsection \<open>Requests and responses\<close>

text \<open>
  The JSON body of \<open>POST /emergency/alert\<close>. A coordinate is a JSON number or is
  missing; \<open>None\<close> stands for \<open>undefined\<close> and \<open>null\<close>.
\<close>

record alert_body =
  longitude :: "real option"
  latitude :: "real option"
  req_address :: "string option"
  req_accuracy :: "real option"
  req_alertType :: "alert_type option"
  req_message :: "string option"
  req_batteryLevel :: "real option"
  req_networkType :: "string option"

text \<open>The body of \<open>POST /emergency/contacts\<close>: the six fields the handler reads.\<close>

record contact_body =
  b_name :: "string option"
  b_phone :: "string option"
  b_email :: "string option"
  b_relation :: "contact_relation option"
  b_isPrimary :: "bool option"
  b_notes :: "string option"

text \<open>
  The body of \<open>PUT /emergency/contacts/:id\<close>. The handler hands the whole body to
  \<open>findByIdAndUpdate\<close>, so every path of the contact schema can be in it, the owner
  and the counters included; a field that is \<open>None\<close> is not part of the update. The
  creation date belongs to the \<open>timestamps\<close> option and is not written from a body.
\<close>

record contact_patch =
  p_user :: "object_id option"
  p_name :: "string option"
  p_phone :: "string option"
  p_email :: "string option"
  p_relation :: "contact_relation option"
  p_isPrimary :: "bool option"
  p_isVerified :: "bool option"
  p_notificationPreferences :: "notificationPreferences option"
  p_alertCount :: "int option"
  p_lastAlertSent :: "date option"
  p_isActive :: "bool option"
  p_notes :: "string option"

text \<open>What \<open>res.status(n).json({success, message, data})\<close> sends.\<close>

record 'd response =
  http_status :: nat
  success :: bool
  message :: "string option"
  data :: "'d option"

record alert_summary =
  alertId :: object_id
  s_status :: alert_status
  s_location :: alert_location
  s_notifiedContacts :: nat
  s_activatedAt :: date

definition failure :: "nat \<Rightarrow> string \<Rightarrow> 'd response" where
  "failure code msg =
     \<lparr>http_status = code, success = False, message = Some msg, data = None\<rparr>"

text \<open>The error responses of the controller, under the names the specification uses.\<close>

definition InvalidLocation :: "'d response" where
  "InvalidLocation = failure 400 ''Location is required for emergency alert''"

definition NoContactsConfigured :: "'d response" where
  "NoContactsConfigured =
     failure 400 ''No emergency contacts found. Please add emergency contacts first.''"

definition AlertNotFound :: "'d response" where
  "AlertNotFound = failure 404 ''Alert not found''"

definition InvalidTransition :: "'d response" where
  "InvalidTransition = failure 400 ''Alert is not active''"

definition DuplicateContact :: "'d response" where
  "DuplicateContact = failure 400 ''Contact with this phone number already exists''"

definition ContactNotFound :: "'d response" where
  "ContactNotFound = failure 404 ''Contact not found''"

subsection \<open>Collaborators\<close>

text \<open>
  What the handlers cannot decide themselves: the configuration of the SMS service and
  whether a provider call resolves or rejects. A rejected promise is \<open>Rejects\<close>. The
  providers answer per phone number, per mail address and per contact.
\<close>

datatype promise = Resolves | Rejects

record env =
  termii_key :: bool
  twilio_client :: bool
  termii_fetch :: "string \<Rightarrow> promise"
  twilio_create :: "string \<Rightarrow> promise"
  transporter_sendMail :: "string \<Rightarrow> promise"
  sendPushNotification :: "object_id \<Rightarrow> promise"

section \<open>Services\<close>

text \<open>
  \<open>sendSMS\<close> (smsService.js): Termii for \<open>+234\<close> numbers when a key is set; without
  a Twilio client the function returns an object and does not throw; otherwise Twilio.
  Whatever a provider call throws is thrown again.
\<close>

definition sendSMS :: "env \<Rightarrow> string \<Rightarrow> promise" where
  "sendSMS e ph =
     (if take 4 ph = ''+234'' \<and> termii_key e then termii_fetch e ph
      else if \<not> twilio_client e then Resolves
      else twilio_create e ph)"

definition sendEmail :: "env \<Rightarrow> string \<Rightarrow> promise" where
  "sendEmail e rcpt = transporter_sendMail e rcpt"

section \<open>Schema validators\<close>

text \<open>
  The character classes of the two patterns: \<open>[0-9]\<close>, \<open>\w\<close>, \<open>\s\<close> (among the code
  units below 256) and \<open>[-\s\.]\<close>.
\<close>

definition is_digit :: "char \<Rightarrow> bool" where
  "is_digit c \<longleftrightarrow> c \<in> set ''0123456789''"

definition is_word :: "char \<Rightarrow> bool" where
  "is_word c \<longleftrightarrow>
     c \<in> set ''abcdefghijklmnopqrstuvwxyzABCDEFGHIJKLMNOPQRSTUVWXYZ0123456789_''"

definition is_space :: "char \<Rightarrow> bool" where
  "is_space c \<longleftrightarrow>
     c \<in> set [CHR 0x09, CHR 0x0A, CHR 0x0B, CHR 0x0C, CHR 0x0D, CHR 0x20, CHR 0xA0]"

definition is_separator :: "char \<Rightarrow> bool" where
  "is_separator c \<longleftrightarrow> c = CHR ''-'' \<or> c = CHR ''.'' \<or> is_space c"

text \<open>
  The phone pattern
  \<^verbatim>\<open>/^[\+]?[(]?[0-9]{3}[)]?[-\s\.]?[0-9]{3}[-\s\.]?[0-9]{4,6}$/\<close>.
  No optional character is a digit and no two neighbouring optional classes share a
  character, so an optional character that is there has to be taken: the pattern is
  matched from left to right without choice.
\<close>

definition skip :: "(char \<Rightarrow> bool) \<Rightarrow> string \<Rightarrow> string" where
  "skip P s = (case s of [] \<Rightarrow> [] | c # r \<Rightarrow> if P c then r else s)"

definition digits :: "nat \<Rightarrow> string \<Rightarrow> string option" where
  "digits n s = (if n \<le> length s \<and> list_all is_digit (take n s) then Some (drop n s) else None)"

definition phone_match :: "string \<Rightarrow> bool" where
  "phone_match s =
     (case digits 3 (skip (\<lambda>c. c = CHR ''('') (skip (\<lambda>c. c = CHR ''+'') s)) of
        None \<Rightarrow> False
      | Some r \<Rightarrow>
          (case digits 3 (skip is_separator (skip (\<lambda>c. c = CHR '')'') r)) of
             None \<Rightarrow> False
           | Some t \<Rightarrow>
               (let u = skip is_separator t
                in 4 \<le> length u \<and> length u \<le> 6 \<and> list_all is_digit u)))"

text \<open>
  The mail pattern \<^verbatim>\<open>/^\w+([\.-]?\w+)*@\w+([\.-]?\w+)*(\.\w{2,3})+$/\<close>.
  \<open>word_run False s\<close> is \<^verbatim>\<open>\w+([\.-]?\w+)*\<close>: word characters and single dots or
  hyphens, beginning and ending with a word character (the flag says that the character
  before was a word character). The part after the \<open>@\<close> is such a run followed by a dot
  and two or three word characters; these are the characters after its last dot.
\<close>

fun word_run :: "bool \<Rightarrow> string \<Rightarrow> bool" where
  "word_run prev [] = prev"
| "word_run prev (c # cs) =
     (if is_word c then word_run True cs
      else if (c = CHR ''.'' \<or> c = CHR ''-'') \<and> prev then word_run False cs
      else False)"

definition domain_match :: "string \<Rightarrow> bool" where
  "domain_match s =
     (let t = rev (takeWhile (\<lambda>c. c \<noteq> CHR ''.'') (rev s));
          p = rev (drop 1 (dropWhile (\<lambda>c. c \<noteq> CHR ''.'') (rev s)))
      in CHR ''.'' \<in> set s \<and> word_run False p \<and>
         2 \<le> length t \<and> length t \<le> 3 \<and> list_all is_word t)"

definition email_match :: "string \<Rightarrow> bool" where
  "email_match s =
     (case dropWhile (\<lambda>c. c \<noteq> CHR ''@'') s of
        [] \<Rightarrow> False
      | c # r \<Rightarrow> word_run False (takeWhile (\<lambda>c. c \<noteq> CHR ''@'') s) \<and> domain_match r)"

text \<open>
  The validators of the contact schema: \<open>name\<close> of 2 to 50 characters, \<open>phone\<close> matching
  its pattern, \<open>email\<close> (when given and not empty) matching its pattern, \<open>notes\<close> of at
  most 200 characters. They run when a document is created and when a loaded document
  is saved.
\<close>

definition contact_valid :: "EmergencyContact \<Rightarrow> bool" where
  "contact_valid c \<longleftrightarrow>
     2 \<le> length (c_name c) \<and> length (c_name c) \<le> 50 \<and>
     phone_match (c_phone c) \<and>
     (case c_email c of None \<Rightarrow> True | Some m \<Rightarrow> m = [] \<or> email_match m) \<and>
     (case c_notes c of None \<Rightarrow> True | Some t \<Rightarrow> length t \<le> 200)"

text \<open>\<open>runValidators: true\<close>: the same validators on the paths of an update.\<close>

definition patch_valid :: "contact_patch \<Rightarrow> bool" where
  "patch_valid p \<longleftrightarrow>
     (case p_name p of None \<Rightarrow> True | Some n \<Rightarrow> 2 \<le> length n \<and> length n \<le> 50) \<and>
     (case p_phone p of None \<Rightarrow> True | Some s \<Rightarrow> phone_match s) \<and>
     (case p_email p of None \<Rightarrow> True | Some m \<Rightarrow> m = [] \<or> email_match m) \<and>
     (case p_notes p of None \<Rightarrow> True | Some t \<Rightarrow> length t \<le> 200)"

text \<open>
  The alert schema: \<open>additionalInfo.message\<close> has at most 500 characters, and
  \<open>notificationMethod\<close> of an entry of \<open>notifiedContacts\<close> is a \<open>String\<close>. The entries
  the controller builds hold an array there, which is not cast to a string: a document
  that carries such an entry has a cast error, and its \<open>save()\<close> throws. Only a
  document without entries passes.
\<close>

definition alert_valid :: "EmergencyAlert \<Rightarrow> bool" where
  "alert_valid a \<longleftrightarrow>
     notifiedContacts a = [] \<and>
     (case info_message (additionalInfo a) of None \<Rightarrow> True | Some m \<Rightarrow> length m \<le> 500)"

section \<open>Models\<close>

text \<open>
  \<open>getActiveContacts\<close>: \<open>find({user, isActive: true}).sort({isPrimary: -1, createdAt: 1})\<close>.
  The sort key puts \<open>isPrimary = true\<close> first, then the earlier \<open>createdAt\<close>.
\<close>

definition contact_order :: "EmergencyContact \<Rightarrow> nat \<times> int" where
  "contact_order c = (if isPrimary c then 0 else 1, c_createdAt c)"

definition getActiveContacts :: "db \<Rightarrow> object_id \<Rightarrow> EmergencyContact list" where
  "getActiveContacts d uid =
     sort_key contact_order (filter (\<lambda>c. c_user c = uid \<and> c_isActive c) (contacts d))"

text \<open>
  \<open>n += 1\<close> on a \<open>Number\<close> that holds an integer: exact below \<open>2^53\<close>; from there
  on the sum is rounded to the next number the format has (to the even one of two
  neighbours, which are 2 apart up to \<open>2^54\<close>).
\<close>

definition js_succ :: "int \<Rightarrow> int" where
  "js_succ n =
     (if - (2 ^ 53) \<le> n \<and> n < 2 ^ 53 then n + 1
      else if - (2 ^ 54) < n \<and> n < 2 ^ 54 then (if n mod 4 = 0 then n else n + 2)
      else n)"

text \<open>\<open>incrementAlertCount\<close>, before its \<open>save()\<close>.\<close>

definition incrementAlertCount :: "date \<Rightarrow> EmergencyContact \<Rightarrow> EmergencyContact" where
  "incrementAlertCount now c =
     c\<lparr>alertCount := js_succ (alertCount c), lastAlertSent := Some now\<rparr>"

text \<open>The pre-save hook of the alert schema: \<open>Math.floor((deactivatedAt - activatedAt) / 1000)\<close>.\<close>

definition pre_save :: "EmergencyAlert \<Rightarrow> EmergencyAlert" where
  "pre_save a =
     (case deactivatedAt a of
        Some d \<Rightarrow> a\<lparr>duration := Some ((d - activatedAt a) div 1000)\<rparr>
      | None \<Rightarrow> a)"

text \<open>The instance methods \<open>resolveAlert\<close> and \<open>markAsFalseAlarm\<close>, before their \<open>save()\<close>.\<close>

definition resolveAlert_method ::
  "date \<Rightarrow> date \<Rightarrow> object_id \<Rightarrow> resolution_outcome option \<Rightarrow> string option
     \<Rightarrow> EmergencyAlert \<Rightarrow> EmergencyAlert" where
  "resolveAlert_method t1 t2 who oc nt a =
     a\<lparr>status := Resolved,
       resolution := Some \<lparr>resolvedAt = t1, resolvedBy = who, resolutionNotes = nt, outcome = oc\<rparr>,
       deactivatedAt := Some t2\<rparr>"

definition markAsFalseAlarm :: "date \<Rightarrow> EmergencyAlert \<Rightarrow> EmergencyAlert" where
  "markAsFalseAlarm now a = a\<lparr>status := FalseAlarm, deactivatedAt := Some now\<rparr>"

text \<open>
  Persistence: a new document gets an unused id; \<open>save()\<close> of a loaded document
  replaces the stored document with the same id.
\<close>

definition new_id :: "object_id list \<Rightarrow> object_id" where
  "new_id ids = Suc (fold max ids 0)"

definition save_alert :: "EmergencyAlert \<Rightarrow> db \<Rightarrow> db" where
  "save_alert a d = d\<lparr>alerts := map (\<lambda>x. if a_id x = a_id a then a else x) (alerts d)\<rparr>"

definition save_contact :: "EmergencyContact \<Rightarrow> db \<Rightarrow> db" where
  "save_contact c d = d\<lparr>contacts := map (\<lambda>x. if c_id x = c_id c then c else x) (contacts d)\<rparr>"

definition findUserById :: "db \<Rightarrow> object_id \<Rightarrow> User option" where
  "findUserById d uid = find (\<lambda>u. u_id u = uid) (users d)"

text \<open>\<open>updateLocation\<close> of the user model (saved without validation).\<close>

definition updateLocation :: "real \<Rightarrow> real \<Rightarrow> string option \<Rightarrow> date \<Rightarrow> User \<Rightarrow> User" where
  "updateLocation lon lat addr now u =
     u\<lparr>u_location := \<lparr>u_coordinates = (lon, lat), u_address = addr, lastUpdated = Some now\<rparr>\<rparr>"

definition save_user :: "User \<Rightarrow> db \<Rightarrow> db" where
  "save_user u d = d\<lparr>users := map (\<lambda>x. if u_id x = u_id u then u else x) (users d)\<rparr>"

section \<open>Emergency controller\<close>

subsection \<open>Panic activation\<close>

text \<open>\<open>!x\<close> on a coordinate: a missing value and the number 0 are falsy.\<close>

definition falsy :: "real option \<Rightarrow> bool" where
  "falsy v = (case v of None \<Rightarrow> True | Some x \<Rightarrow> x = 0)"

text \<open>
  The callback of \<open>contacts.map\<close>, one block per channel. The SMS block sets
  \<open>deliveryStatus\<close>: \<open>sent\<close> after \<open>sendSMS\<close> and \<open>incrementAlertCount\<close>, \<open>failed\<close> in its
  \<open>catch\<close>. The email and push blocks only push their channel; their \<open>catch\<close> logs.
  The second component is the contact document that \<open>incrementAlertCount\<close> saved.
\<close>

definition sms_block ::
  "env \<Rightarrow> date \<Rightarrow> EmergencyContact \<Rightarrow> notification
     \<Rightarrow> notification \<times> EmergencyContact option" where
  "sms_block e now c n =
     (if sms (notificationPreferences c) then
        (case sendSMS e (c_phone c) of
           Rejects \<Rightarrow> (n\<lparr>deliveryStatus := Failed\<rparr>, None)
         | Resolves \<Rightarrow>
             (let n' = n\<lparr>notificationMethod := notificationMethod n @ [SMS],
                         deliveryStatus := Sent\<rparr>
              in if contact_valid (incrementAlertCount now c)
                 then (n', Some (incrementAlertCount now c))
                 else (n'\<lparr>deliveryStatus := Failed\<rparr>, None)))
      else (n, None))"

definition email_block :: "env \<Rightarrow> EmergencyContact \<Rightarrow> notification \<Rightarrow> notification" where
  "email_block e c n =
     (case c_email c of
        None \<Rightarrow> n
      | Some a \<Rightarrow>
          if email (notificationPreferences c) \<and> a \<noteq> [] then
            (case sendEmail e a of
               Resolves \<Rightarrow> n\<lparr>notificationMethod := notificationMethod n @ [EMAIL]\<rparr>
             | Rejects \<Rightarrow> n)
          else n)"

definition push_block :: "env \<Rightarrow> EmergencyContact \<Rightarrow> notification \<Rightarrow> notification" where
  "push_block e c n =
     (if push (notificationPreferences c) then
        (case sendPushNotification e (c_id c) of
           Resolves \<Rightarrow> n\<lparr>notificationMethod := notificationMethod n @ [PUSH]\<rparr>
         | Rejects \<Rightarrow> n)
      else n)"

definition notificationData :: "date \<Rightarrow> EmergencyContact \<Rightarrow> notification" where
  "notificationData now c =
     \<lparr>contact = c_id c, notifiedAt = now, notificationMethod = [], deliveryStatus = Pending\<rparr>"

definition notify_contact ::
  "env \<Rightarrow> date \<Rightarrow> EmergencyContact \<Rightarrow> notification \<times> EmergencyContact option" where
  "notify_contact e now c =
     (let (n1, saved) = sms_block e now c (notificationData now c)
      in (push_block e c (email_block e c n1), saved))"

text \<open>
  \<open>Promise.all\<close> over the callbacks: the list of their results, in the order of the
  contacts, and the store after every \<open>incrementAlertCount\<close> that went through.
\<close>

definition save_notified :: "env \<Rightarrow> date \<Rightarrow> EmergencyContact \<Rightarrow> db \<Rightarrow> db" where
  "save_notified e now c d =
     (case snd (notify_contact e now c) of Some c' \<Rightarrow> save_contact c' d | None \<Rightarrow> d)"

definition notifyContacts ::
  "env \<Rightarrow> date \<Rightarrow> EmergencyContact list \<Rightarrow> db \<Rightarrow> notification list \<times> db" where
  "notifyContacts e now cs d =
     (map (\<lambda>c. fst (notify_contact e now c)) cs, fold (save_notified e now) cs d)"

fun show_nat :: "nat \<Rightarrow> string" where
  "show_nat n =
     (if n < 10 then [char_of (48 + n)]
      else show_nat (n div 10) @ [char_of (48 + n mod 10)])"

declare show_nat.simps [simp del]

definition new_alert :: "date \<Rightarrow> object_id \<Rightarrow> real \<Rightarrow> real \<Rightarrow> alert_body \<Rightarrow> db \<Rightarrow> EmergencyAlert" where
  "new_alert now uid lon lat b d =
     \<lparr>a_id = new_id (map a_id (alerts d)),
      a_user = uid,
      alertType = (case req_alertType b of Some t \<Rightarrow> t | None \<Rightarrow> Panic),
      status = Active,
      location = \<lparr>coordinates = (lon, lat), address = req_address b, accuracy = req_accuracy b\<rparr>,
      notifiedContacts = [],
      additionalInfo = \<lparr>info_message = req_message b, batteryLevel = req_batteryLevel b,
                        networkType = req_networkType b\<rparr>,
      resolution = None,
      activatedAt = now,
      deactivatedAt = None,
      duration = None\<rparr>"

definition activated :: "EmergencyAlert \<Rightarrow> nat \<Rightarrow> alert_summary response" where
  "activated a k =
     \<lparr>http_status = 201, success = True,
      message = Some (''Emergency alert activated! '' @ show_nat k
                      @ '' contact(s) have been notified.''),
      data = Some \<lparr>alertId = a_id a, s_status = status a, s_location = location a,
                   s_notifiedContacts = k, s_activatedAt = activatedAt a\<rparr>\<rparr>"

text \<open>
  \<open>activatePanicButton\<close>. Every exception inside the handler's \<open>try\<close> ends in the 500
  response of its \<open>catch\<close>: a rejected \<open>create\<close> or \<open>save\<close>, and \<open>user.updateLocation\<close>
  when \<open>User.findById\<close> returned \<open>null\<close>. What was written before the exception stays
  written. The coordinates are read with \<open>the\<close> only after the presence check, where
  both are present. One clock reading stands for the \<open>Date.now()\<close> calls of one
  activation (activation date, \<open>notifiedAt\<close>, \<open>lastAlertSent\<close>, \<open>lastUpdated\<close>).
\<close>

definition activatePanicButton ::
  "env \<Rightarrow> date \<Rightarrow> object_id \<Rightarrow> alert_body \<Rightarrow> db \<Rightarrow> alert_summary response \<times> db" where
  "activatePanicButton e now uid b d =
     (if falsy (longitude b) \<or> falsy (latitude b) then (InvalidLocation, d)
      else
        (let cs = getActiveContacts d uid;
             lon = the (longitude b);
             lat = the (latitude b)
         in if length cs = 0 then (NoContactsConfigured, d)
            else
              (let a = new_alert now uid lon lat b d
               in if \<not> alert_valid a
                  then (failure 500 ''Error activating emergency alert'', d)
                  else
                    (let d1 = d\<lparr>alerts := alerts d @ [pre_save a]\<rparr>
                     in case findUserById d1 uid of
                          None \<Rightarrow> (failure 500 ''Error activating emergency alert'', d1)
                        | Some u \<Rightarrow>
                            (let d2 = save_user (updateLocation lon lat (req_address b) now u) d1;
                                 (ns, d3) = notifyContacts e now cs d2;
                                 a' = (pre_save a)\<lparr>notifiedContacts := ns\<rparr>
                             in if \<not> alert_valid a'
                                then (failure 500 ''Error activating emergency alert'', d3)
                                else (activated (pre_save a') (length cs),
                                      save_alert (pre_save a') d3))))))"

subsection \<open>Alert transitions\<close>

text \<open>
  \<open>resolveAlert\<close>: \<open>findOne({_id, user})\<close>, the status guard, the instance method and
  its \<open>save()\<close> (validation, then the pre-save hook). The two dates are the two
  \<open>Date.now()\<close> readings of the instance method. After the save the handler reads
  \<open>user.name\<close>, which throws when the user document is missing. The resolution SMS to
  the contacts is sent without waiting and its failures are only logged; it changes
  neither the store nor the response.
\<close>

definition findAlert :: "db \<Rightarrow> object_id \<Rightarrow> object_id \<Rightarrow> EmergencyAlert option" where
  "findAlert d aid uid = find (\<lambda>a. a_id a = aid \<and> a_user a = uid) (alerts d)"

definition resolveAlert ::
  "env \<Rightarrow> date \<Rightarrow> date \<Rightarrow> object_id \<Rightarrow> object_id \<Rightarrow> resolution_outcome option
     \<Rightarrow> string option \<Rightarrow> db \<Rightarrow> EmergencyAlert response \<times> db" where
  "resolveAlert e t1 t2 uid aid oc nt d =
     (case findAlert d aid uid of
        None \<Rightarrow> (AlertNotFound, d)
      | Some a \<Rightarrow>
          if status a \<noteq> Active then (InvalidTransition, d)
          else
            (let a' = resolveAlert_method t1 t2 uid oc nt a
             in if \<not> alert_valid a' then (failure 500 ''Error resolving alert'', d)
                else
                  (let d' = save_alert (pre_save a') d
                   in case findUserById d' uid of
                        None \<Rightarrow> (failure 500 ''Error resolving alert'', d')
                      | Some u \<Rightarrow>
                          (\<lparr>http_status = 200, success = True,
                            message = Some ''Alert resolved successfully'',
                            data = Some (pre_save a')\<rparr>, d'))))"

text \<open>\<open>markFalseAlarm\<close>: \<open>findOne({_id, user})\<close>, then the instance method and its \<open>save()\<close>.\<close>

definition markFalseAlarm ::
  "env \<Rightarrow> date \<Rightarrow> object_id \<Rightarrow> object_id \<Rightarrow> db \<Rightarrow> EmergencyAlert response \<times> db" where
  "markFalseAlarm e now uid aid d =
     (case findAlert d aid uid of
        None \<Rightarrow> (AlertNotFound, d)
      | Some a \<Rightarrow>
          (let a' = markAsFalseAlarm now a
           in if \<not> alert_valid a' then (failure 500 ''Error marking alert'', d)
              else (\<lparr>http_status = 200, success = True,
                     message = Some ''Alert marked as false alarm'',
                     data = Some (pre_save a')\<rparr>, save_alert (pre_save a') d)))"

subsection \<open>Emergency contacts\<close>

text \<open>\<open>updateMany({user, isPrimary: true}, {isPrimary: false})\<close>, with the ids to leave out.\<close>

definition clear_primary :: "object_id \<Rightarrow> object_id set \<Rightarrow> db \<Rightarrow> db" where
  "clear_primary uid keep d =
     d\<lparr>contacts :=
         map (\<lambda>c. if c_user c = uid \<and> c_id c \<notin> keep \<and> isPrimary c
                   then c\<lparr>isPrimary := False\<rparr> else c) (contacts d)\<rparr>"

text \<open>
  The document \<open>EmergencyContact.create\<close> builds from the body and the schema defaults.
\<close>

definition new_contact ::
  "date \<Rightarrow> object_id \<Rightarrow> string \<Rightarrow> string \<Rightarrow> contact_body \<Rightarrow> db \<Rightarrow> EmergencyContact" where
  "new_contact now uid nm ph b d =
     \<lparr>c_id = new_id (map c_id (contacts d)),
      c_user = uid,
      c_name = nm,
      c_phone = ph,
      c_email = b_email b,
      relation = (case b_relation b of Some r \<Rightarrow> r | None \<Rightarrow> Other),
      isPrimary = (case b_isPrimary b of Some p \<Rightarrow> p | None \<Rightarrow> False),
      isVerified = False,
      notificationPreferences = \<lparr>sms = True, email = True, push = False\<rparr>,
      alertCount = 0,
      lastAlertSent = None,
      c_isActive = True,
      c_notes = b_notes b,
      c_createdAt = now\<rparr>"

text \<open>\<open>findByIdAndUpdate(uid, {$push: {emergencyContacts: id}})\<close>; no user, no change.\<close>

definition push_contact :: "object_id \<Rightarrow> object_id \<Rightarrow> db \<Rightarrow> db" where
  "push_contact uid cid d =
     d\<lparr>users := map (\<lambda>u. if u_id u = uid
                           then u\<lparr>emergencyContacts := emergencyContacts u @ [cid]\<rparr> else u)
                    (users d)\<rparr>"

text \<open>The 201 response of \<open>addEmergencyContact\<close>.\<close>

definition added :: "EmergencyContact \<Rightarrow> EmergencyContact response" where
  "added c = \<lparr>http_status = 201, success = True,
               message = Some ''Emergency contact added successfully'', data = Some c\<rparr>"

text \<open>
  \<open>addEmergencyContact\<close>. The handler reads six fields of the body. \<open>create\<close> throws
  when a required field (\<open>name\<close>, \<open>phone\<close>) is missing or a validator rejects the
  document; the handler's \<open>catch\<close> answers 500, after \<open>updateMany\<close> has run.
\<close>

definition addEmergencyContact ::
  "env \<Rightarrow> date \<Rightarrow> object_id \<Rightarrow> contact_body \<Rightarrow> db \<Rightarrow> EmergencyContact response \<times> db" where
  "addEmergencyContact e now uid b d =
     (case find (\<lambda>c. c_user c = uid \<and> Some (c_phone c) = b_phone b) (contacts d) of
        Some existingContact \<Rightarrow> (DuplicateContact, d)
      | None \<Rightarrow>
          (let d1 = (if b_isPrimary b = Some True then clear_primary uid {} d else d)
           in case (b_name b, b_phone b) of
                (Some nm, Some ph) \<Rightarrow>
                  (let c = new_contact now uid nm ph b d1
                   in if \<not> contact_valid c
                      then (failure 500 ''Error adding emergency contact'', d1)
                      else (added c,
                            push_contact uid (c_id c) (d1\<lparr>contacts := contacts d1 @ [c]\<rparr>)))
              | _ \<Rightarrow> (failure 500 ''Error adding emergency contact'', d1)))"

text \<open>\<open>getEmergencyContacts\<close>: the active contacts of the caller.\<close>

definition getEmergencyContacts :: "object_id \<Rightarrow> db \<Rightarrow> EmergencyContact list response" where
  "getEmergencyContacts uid d =
     \<lparr>http_status = 200, success = True, message = None,
      data = Some (getActiveContacts d uid)\<rparr>"

text \<open>The \<open>$set\<close> that \<open>findByIdAndUpdate(id, req.body)\<close> applies.\<close>

definition apply_patch :: "contact_patch \<Rightarrow> EmergencyContact \<Rightarrow> EmergencyContact" where
  "apply_patch p c =
     c\<lparr>c_user := (case p_user p of Some v \<Rightarrow> v | None \<Rightarrow> c_user c),
       c_name := (case p_name p of Some v \<Rightarrow> v | None \<Rightarrow> c_name c),
       c_phone := (case p_phone p of Some v \<Rightarrow> v | None \<Rightarrow> c_phone c),
       c_email := (case p_email p of Some v \<Rightarrow> Some v | None \<Rightarrow> c_email c),
       relation := (case p_relation p of Some v \<Rightarrow> v | None \<Rightarrow> relation c),
       isPrimary := (case p_isPrimary p of Some v \<Rightarrow> v | None \<Rightarrow> isPrimary c),
       isVerified := (case p_isVerified p of Some v \<Rightarrow> v | None \<Rightarrow> isVerified c),
       notificationPreferences :=
         (case p_notificationPreferences p of Some v \<Rightarrow> v
          | None \<Rightarrow> notificationPreferences c),
       alertCount := (case p_alertCount p of Some v \<Rightarrow> v | None \<Rightarrow> alertCount c),
       lastAlertSent :=
         (case p_lastAlertSent p of Some v \<Rightarrow> Some v | None \<Rightarrow> lastAlertSent c),
       c_isActive := (case p_isActive p of Some v \<Rightarrow> v | None \<Rightarrow> c_isActive c),
       c_notes := (case p_notes p of Some v \<Rightarrow> Some v | None \<Rightarrow> c_notes c)\<rparr>"

text \<open>
  The unique index \<open>{user: 1, phone: 1}\<close>: an update that writes the owner or the phone
  number is refused when another document already has the new pair.
\<close>

definition phone_taken :: "EmergencyContact \<Rightarrow> contact_patch \<Rightarrow> db \<Rightarrow> bool" where
  "phone_taken c p d \<longleftrightarrow>
     (p_user p \<noteq> None \<or> p_phone p \<noteq> None) \<and>
     (\<exists>x \<in> set (contacts d).
        c_id x \<noteq> c_id c \<and> c_user x = c_user (apply_patch p c) \<and>
        c_phone x = c_phone (apply_patch p c))"

text \<open>
  The 200 response of \<open>updateEmergencyContact\<close>; its data is the document read back
  after the update (\<open>new: true\<close>).
\<close>

definition updated :: "EmergencyContact option \<Rightarrow> EmergencyContact response" where
  "updated c = \<lparr>http_status = 200, success = True,
                 message = Some ''Contact updated successfully'', data = c\<rparr>"

text \<open>
  \<open>updateEmergencyContact\<close>. \<open>findByIdAndUpdate\<close> runs the validators of the updated
  paths; a rejected update ends in the 500 response, after \<open>updateMany\<close> has run.
\<close>

definition updateEmergencyContact ::
  "env \<Rightarrow> object_id \<Rightarrow> object_id \<Rightarrow> contact_patch \<Rightarrow> db \<Rightarrow> EmergencyContact response \<times> db" where
  "updateEmergencyContact e uid cid p d =
     (case find (\<lambda>c. c_id c = cid \<and> c_user c = uid) (contacts d) of
        None \<Rightarrow> (ContactNotFound, d)
      | Some c \<Rightarrow>
          (let d1 = (if p_isPrimary p = Some True then clear_primary uid {cid} d else d)
           in if patch_valid p \<and> \<not> phone_taken c p d1
              then
                (let d2 = d1\<lparr>contacts := map (\<lambda>x. if c_id x = cid then apply_patch p x else x)
                                            (contacts d1)\<rparr>
                 in (updated (find (\<lambda>x. c_id x = cid) (contacts d2)), d2))
              else (failure 500 ''Error updating contact'', d1)))"

text \<open>The ids of the contacts of a user that are marked primary, in stored order.\<close>

definition primaries :: "object_id \<Rightarrow> db \<Rightarrow> object_id list" where
  "primaries uid d = map c_id (filter (\<lambda>c. c_user c = uid \<and> isPrimary c) (contacts d))"

section \<open>Documents and channels of an activation\<close>

text \<open>
  The document \<open>activatePanicButton\<close> passes to \<open>EmergencyAlert.create\<close>, and the
  condition under which \<open>create\<close> accepts it.
\<close>

definition created_alert :: "date \<Rightarrow> object_id \<Rightarrow> alert_body \<Rightarrow> db \<Rightarrow> EmergencyAlert" where
  "created_alert now uid b d = new_alert now uid (the (longitude b)) (the (latitude b)) b d"

definition message_fits :: "alert_body \<Rightarrow> bool" where
  "message_fits b \<longleftrightarrow> (case req_message b of None \<Rightarrow> True | Some m \<Rightarrow> length m \<le> 500)"


text \<open>
  The channels whose block the callback enters for a contact, and the number of channel
  attempts for a list of contacts.
\<close>

definition enabled_channels :: "EmergencyContact \<Rightarrow> channel list" where
  "enabled_channels c =
     (if sms (notificationPreferences c) then [SMS] else []) @
     (if email (notificationPreferences c) \<and> c_email c \<noteq> None \<and> c_email c \<noteq> Some []
      then [EMAIL] else []) @
     (if push (notificationPreferences c) then [PUSH] else [])"

definition attempts :: "EmergencyContact list \<Rightarrow> nat" where
  "attempts cs = sum_list (map (\<lambda>c. length (enabled_channels c)) cs)"

section \<open>Example data\<close>

text \<open>Concrete users, contacts, providers and requests for the instances below.\<close>

definition amaka :: User where
  "amaka = \<lparr>u_id = 7, u_name = ''Amaka'', u_phone = ''08012345678'',
     u_email = ''amaka@example.com'', emergencyContacts = [],
     u_location = \<lparr>u_coordinates = (0, 0), u_address = None, lastUpdated = None\<rparr>\<rparr>"

definition kin :: "object_id \<Rightarrow> object_id \<Rightarrow> string \<Rightarrow> bool \<Rightarrow> date \<Rightarrow> EmergencyContact" where
  "kin i u ph prim t =
     \<lparr>c_id = i, c_user = u, c_name = ''Kin'', c_phone = ph, c_email = Some ''kin@example.com'',
      relation = Family, isPrimary = prim, isVerified = False,
      notificationPreferences = \<lparr>sms = True, email = True, push = False\<rparr>,
      alertCount = 0, lastAlertSent = None, c_isActive = True, c_notes = None,
      c_createdAt = t\<rparr>"

text \<open>
  Providers that all resolve or all reject, with or without a Twilio client, and no
  Termii key.
\<close>

definition providers :: "bool \<Rightarrow> promise \<Rightarrow> env" where
  "providers tw r =
     \<lparr>termii_key = False, twilio_client = tw, termii_fetch = (\<lambda>_. r),
      twilio_create = (\<lambda>_. r), transporter_sendMail = (\<lambda>_. r),
      sendPushNotification = (\<lambda>_. r)\<rparr>"

definition lagos :: alert_body where
  "lagos = \<lparr>longitude = Some 3.37, latitude = Some 6.52, req_address = None,
     req_accuracy = None, req_alertType = None, req_message = None,
     req_batteryLevel = None, req_networkType = None\<rparr>"

definition db_no_contacts :: db where
  "db_no_contacts = \<lparr>users = [amaka], contacts = [], alerts = []\<rparr>"

definition db_one_contact :: db where
  "db_one_contact =
     \<lparr>users = [amaka], contacts = [kin 11 7 ''08030000001'' True 10], alerts = []\<rparr>"

definition db_three :: db where
  "db_three =
     \<lparr>users = [amaka],
      contacts = [kin 11 7 ''08030000001'' True 10,
                  kin 12 7 ''08030000002'' False 20,
                  kin 13 7 ''08030000003'' False 30],
      alerts = []\<rparr>"



definition db_listing :: db where
  "db_listing =
     \<lparr>users = [amaka],
      contacts = [kin 11 7 ''08030000001'' False 30,
                  kin 12 7 ''08030000002'' True 40,
                  (kin 13 7 ''08030000003'' True 5)\<lparr>c_isActive := False\<rparr>,
                  kin 14 8 ''08030000004'' True 1,
                  kin 15 7 ''08030000005'' False 20],
      alerts = []\<rparr>"

definition alert_of :: "object_id \<Rightarrow> object_id \<Rightarrow> date \<Rightarrow> EmergencyAlert" where
  "alert_of i u t =
     \<lparr>a_id = i, a_user = u, alertType = Panic, status = Active,
      location = \<lparr>coordinates = (3.37, 6.52), address = None, accuracy = None\<rparr>,
      notifiedContacts = [],
      additionalInfo = \<lparr>info_message = None, batteryLevel = None, networkType = None\<rparr>,
      resolution = None, activatedAt = t, deactivatedAt = None, duration = None\<rparr>"

definition resolved_alert :: EmergencyAlert where
  "resolved_alert =
     (alert_of 22 7 1000)
       \<lparr>status := Resolved,
        resolution := Some \<lparr>resolvedAt = 5000, resolvedBy = 7, resolutionNotes = None,
                            outcome = Some Safe\<rparr>,
        deactivatedAt := Some 5000, duration := Some 4\<rparr>"

definition db_alerts :: db where
  "db_alerts = \<lparr>users = [amaka], contacts = [], alerts = [alert_of 21 7 1000, resolved_alert]\<rparr>"

definition sister :: "string \<Rightarrow> bool option \<Rightarrow> contact_body" where
  "sister ph prim =
     \<lparr>b_name = Some ''Ngozi'', b_phone = Some ph, b_email = None, b_relation = Some Family,
      b_isPrimary = prim, b_notes = None\<rparr>"

text \<open>The body \<open>{isPrimary: true}\<close>, and the same with a \<open>user\<close> in it.\<close>

definition make_primary :: "object_id option \<Rightarrow> contact_patch" where
  "make_primary owner =
     \<lparr>p_user = owner, p_name = None, p_phone = None, p_email = None, p_relation = None,
      p_isPrimary = Some True, p_isVerified = None, p_notificationPreferences = None,
      p_alertCount = None, p_lastAlertSent = None, p_isActive = None, p_notes = None\<rparr>"

definition db_two_users :: db where
  "db_two_users =
     \<lparr>users = [amaka],
      contacts = [kin 11 7 ''08030000001'' True 10,
                  kin 12 7 ''08030000002'' False 20,
                  kin 13 8 ''08030000009'' True 30],
      alerts = []\<rparr>"

section \<open>Properties\<close>

subsection \<open>Auxiliary facts\<close>

lemmas activate_defs =
  activatePanicButton_def getActiveContacts_def contact_order_def falsy_def new_alert_def
  new_id_def findUserById_def pre_save_def save_user_def updateLocation_def
  notifyContacts_def notify_contact_def sms_block_def email_block_def push_block_def
  notificationData_def sendSMS_def sendEmail_def save_notified_def save_contact_def
  save_alert_def activated_def incrementAlertCount_def failure_def alert_valid_def Let_def

lemmas example_defs =
  amaka_def kin_def providers_def lagos_def db_no_contacts_def db_one_contact_def

lemma save_notified_alerts [simp]: "alerts (save_notified e now c d) = alerts d"
  by (simp add: save_notified_def save_contact_def split: option.splits)

lemma save_notified_users [simp]: "users (save_notified e now c d) = users d"
  by (simp add: save_notified_def save_contact_def split: option.splits)

lemma fold_save_notified_alerts [simp]: "alerts (fold (save_notified e now) cs d) = alerts d"
  by (induction cs arbitrary: d) simp_all

lemma fold_save_notified_users [simp]: "users (fold (save_notified e now) cs d) = users d"
  by (induction cs arbitrary: d) simp_all



lemma pre_save_active [simp]: "deactivatedAt a = None \<Longrightarrow> pre_save a = a"
  by (simp add: pre_save_def)


lemma example_phones:
  "phone_match ''08030000001''" "phone_match ''08030000002''" "phone_match ''08030000003''"
  "phone_match ''08030000007''" "phone_match ''08030000009''"
  by (simp_all add: phone_match_def skip_def digits_def is_digit_def is_separator_def is_space_def)

lemma contact_valid_increment [simp]:
  "contact_valid (incrementAlertCount now c) = contact_valid c"
  by (simp add: contact_valid_def incrementAlertCount_def)

lemma created_alert_simps [simp]:
  "deactivatedAt (created_alert now uid b d) = None"
  "status (created_alert now uid b d) = Active"
  "a_id (created_alert now uid b d) = new_id (map a_id (alerts d))"
  "a_user (created_alert now uid b d) = uid"
  "activatedAt (created_alert now uid b d) = now"
  "notifiedContacts (created_alert now uid b d) = []"
  "alert_valid (created_alert now uid b d) = message_fits b"
  by (simp_all add: created_alert_def new_alert_def alert_valid_def message_fits_def)




lemma notify_contact_contact [simp]: "contact (fst (notify_contact e now c)) = c_id c"
  by (simp add: notify_contact_def sms_block_def email_block_def push_block_def
        notificationData_def Let_def split: promise.splits option.splits)




lemma c_id_increment [simp]: "c_id (incrementAlertCount now c) = c_id c"
  by (simp add: incrementAlertCount_def)





lemma contact_order_le:
  "contact_order x \<le> contact_order y \<longleftrightarrow>
     (isPrimary x \<and> \<not> isPrimary y) \<or>
     (isPrimary x = isPrimary y \<and> c_createdAt x \<le> c_createdAt y)"
  by (auto simp: contact_order_def less_eq_prod_def)

lemma findAlert_Some:
  "findAlert d aid uid = Some a \<Longrightarrow> a \<in> set (alerts d) \<and> a_id a = aid \<and> a_user a = uid"
  by (auto simp: findAlert_def find_Some_iff)

lemma save_alert_users [simp]: "users (save_alert a d) = users d"
  by (simp add: save_alert_def)

lemma save_alert_contacts [simp]: "contacts (save_alert a d) = contacts d"
  by (simp add: save_alert_def)

lemma save_alert_member:
  "a \<in> set (alerts d) \<Longrightarrow> a_id a' = a_id a \<Longrightarrow> a' \<in> set (alerts (save_alert a' d))"
proof -
  assume "a \<in> set (alerts d)" and "a_id a' = a_id a"
  then have "a' \<in> (\<lambda>x. if a_id x = a_id a' then a' else x) ` set (alerts d)"
    by (intro image_eqI [where x = a]) simp_all
  then show ?thesis
    by (simp add: save_alert_def)
qed

lemma pre_save_resolve:
  "pre_save (resolveAlert_method t1 t2 uid oc nt a) =
     a\<lparr>status := Resolved,
       resolution := Some \<lparr>resolvedAt = t1, resolvedBy = uid, resolutionNotes = nt, outcome = oc\<rparr>,
       deactivatedAt := Some t2,
       duration := Some ((t2 - activatedAt a) div 1000)\<rparr>"
  by (simp add: pre_save_def resolveAlert_method_def)

lemma alert_valid_resolve [simp]:
  "alert_valid (resolveAlert_method t1 t2 uid oc nt a) = alert_valid a"
  by (simp add: alert_valid_def resolveAlert_method_def)

lemma clear_primary_ids [simp]:
  "map c_id (contacts (clear_primary uid keep d)) = map c_id (contacts d)"
  by (simp add: clear_primary_def comp_def)

lemma new_contact_clear [simp]:
  "new_contact now uid nm ph b (clear_primary uid' keep d) = new_contact now uid nm ph b d"
  by (simp add: new_contact_def)

lemma push_contact_contacts [simp]: "contacts (push_contact uid cid d) = contacts d"
  by (simp add: push_contact_def)

lemma new_contact_simps [simp]:
  "c_user (new_contact now uid nm ph b d) = uid"
  "c_phone (new_contact now uid nm ph b d) = ph"
  "c_id (new_contact now uid nm ph b d) = new_id (map c_id (contacts d))"
  "isPrimary (new_contact now uid nm ph b d) = (b_isPrimary b = Some True)"
  by (simp_all add: new_contact_def split: option.splits)



lemmas contact_defs =
  updateEmergencyContact_def addEmergencyContact_def clear_primary_def apply_patch_def
  phone_taken_def patch_valid_def contact_valid_def new_contact_def new_id_def push_contact_def
  added_def updated_def failure_def primaries_def make_primary_def sister_def db_two_users_def
  kin_def amaka_def Let_def

subsection \<open>Location check\<close>

text \<open>
  C9. A request whose latitude or longitude is the number 0 is answered with the 400
  response "Location is required for emergency alert", and the store is returned as it
  was, so no alert is created: the presence check \<open>!longitude || !latitude\<close> takes 0
  for a missing value.
\<close>

theorem zero_coordinate_rejected:
  "longitude b = Some 0 \<or> latitude b = Some 0 \<Longrightarrow>
     activatePanicButton e now uid b d = (InvalidLocation, d)"
  by (auto simp: activatePanicButton_def falsy_def)

theorem zero_coordinate_rejected_witness:
  "latitude (lagos\<lparr>latitude := Some 0\<rparr>) = Some 0 \<and>
   activatePanicButton (providers True Resolves) 1000 7 (lagos\<lparr>latitude := Some 0\<rparr>)
       db_one_contact
     = (InvalidLocation, db_one_contact)"
  using zero_coordinate_rejected
          [of "lagos\<lparr>latitude := Some 0\<rparr>" "providers True Resolves" 1000 7 db_one_contact]
  by simp

subsection \<open>No contacts\<close>

text \<open>
  C1, as stated: a user without active contacts always gets the response
  "No emergency contacts found". The handler checks the location before it loads the
  contacts, so a request without a longitude gets the location response instead.
\<close>

theorem no_contacts_without_longitude_counterexample:
  "getActiveContacts db_no_contacts 7 = [] \<and>
   longitude (lagos\<lparr>longitude := None\<rparr>) = None \<and>
   fst (activatePanicButton (providers True Resolves) 1000 7 (lagos\<lparr>longitude := None\<rparr>)
          db_no_contacts)
     \<noteq> NoContactsConfigured"
  by (simp add: getActiveContacts_def db_no_contacts_def activatePanicButton_def falsy_def
        InvalidLocation_def NoContactsConfigured_def failure_def)

text \<open>
  C1, amended. For a user without active contacts the activation fails with status 400
  and leaves the store, hence the set of alerts, unchanged whatever the request is.
  The location check comes first: a request that lacks a coordinate is answered with
  "Location is required for emergency alert", and a request that passes the location
  check is answered with "No emergency contacts found".
\<close>

theorem no_contacts_refused:
  assumes "getActiveContacts d uid = []"
  shows "snd (activatePanicButton e now uid b d) = d \<and>
         http_status (fst (activatePanicButton e now uid b d)) = 400 \<and>
         \<not> success (fst (activatePanicButton e now uid b d)) \<and>
         (longitude b = None \<or> latitude b = None \<longrightarrow>
            fst (activatePanicButton e now uid b d) = InvalidLocation) \<and>
         (\<not> falsy (longitude b) \<and> \<not> falsy (latitude b) \<longrightarrow>
            fst (activatePanicButton e now uid b d) = NoContactsConfigured)"
  using assms
  by (auto simp: activatePanicButton_def InvalidLocation_def NoContactsConfigured_def
        failure_def falsy_def)

theorem no_contacts_refused_witness:
  "getActiveContacts db_no_contacts 7 = [] \<and>
   \<not> falsy (longitude lagos) \<and> \<not> falsy (latitude lagos) \<and>
   activatePanicButton (providers True Resolves) 1000 7 lagos db_no_contacts
     = (NoContactsConfigured, db_no_contacts) \<and>
   longitude (lagos\<lparr>longitude := None\<rparr>) = None \<and>
   activatePanicButton (providers True Resolves) 1000 7 (lagos\<lparr>longitude := None\<rparr>)
       db_no_contacts
     = (InvalidLocation, db_no_contacts)"
proof -
  let ?e = "providers True Resolves"
  have h: "getActiveContacts db_no_contacts 7 = []"
    by (simp add: getActiveContacts_def db_no_contacts_def)
  have l: "\<not> falsy (longitude lagos) \<and> \<not> falsy (latitude lagos)"
    by (simp add: falsy_def lagos_def)
  have m: "longitude (lagos\<lparr>longitude := None\<rparr>) = None"
    by simp
  from no_contacts_refused [OF h, of ?e 1000 lagos] l
  have "snd (activatePanicButton ?e 1000 7 lagos db_no_contacts) = db_no_contacts"
    and "fst (activatePanicButton ?e 1000 7 lagos db_no_contacts) = NoContactsConfigured"
    by blast+
  then have 1: "activatePanicButton ?e 1000 7 lagos db_no_contacts
     = (NoContactsConfigured, db_no_contacts)"
    by (metis prod.collapse)
  from no_contacts_refused [OF h, of ?e 1000 "lagos\<lparr>longitude := None\<rparr>"] m
  have "snd (activatePanicButton ?e 1000 7 (lagos\<lparr>longitude := None\<rparr>) db_no_contacts)
          = db_no_contacts"
    and "fst (activatePanicButton ?e 1000 7 (lagos\<lparr>longitude := None\<rparr>) db_no_contacts)
          = InvalidLocation"
    by blast+
  then have 2: "activatePanicButton ?e 1000 7 (lagos\<lparr>longitude := None\<rparr>) db_no_contacts
     = (InvalidLocation, db_no_contacts)"
    by (metis prod.collapse)
  from h l 1 m 2 show ?thesis by blast
qed

subsection \<open>Outcomes of the dispatch\<close>

text \<open>
  C3. Three contacts with SMS and email enabled, every provider rejecting: six channel
  attempts are made, the callback builds three entries (one per contact, not one per
  attempt), and the save of the alert with these entries is rejected, since each entry
  carries a list where the schema has a \<open>String\<close>. The request is answered with the
  500 response, and the stored alert has no entry.
\<close>

theorem three_contacts_rejected_save:
  "attempts (getActiveContacts db_three 7) = 6 \<and>
   length (fst (notifyContacts (providers True Rejects) 1000 (getActiveContacts db_three 7)
                  db_three)) = 3 \<and>
   fst (activatePanicButton (providers True Rejects) 1000 7 lagos db_three)
     = failure 500 ''Error activating emergency alert'' \<and>
   map notifiedContacts
     (alerts (snd (activatePanicButton (providers True Rejects) 1000 7 lagos db_three))) = [[]]"
  by (simp add: attempts_def enabled_channels_def activate_defs example_defs db_three_def)




subsection \<open>SMS service without a provider\<close>



subsection \<open>Listing the active contacts\<close>

text \<open>
  C8. \<open>getActiveContacts\<close> returns exactly the contacts of the user whose active flag
  is set (as a multiset: each such document once per occurrence in the collection),
  sorted by the key of \<open>contact_order\<close>: of two entries the later one is primary only if
  the earlier one is, and entries with the same primary flag are in the order of their
  creation dates, earliest first. \<open>getEmergencyContacts\<close> answers 200 with this list.
\<close>

theorem active_contacts_listing:
  "mset (getActiveContacts d uid)
     = mset (filter (\<lambda>c. c_user c = uid \<and> c_isActive c) (contacts d)) \<and>
   sorted (map contact_order (getActiveContacts d uid)) \<and>
   (\<forall>i j. i < j \<and> j < length (getActiveContacts d uid) \<longrightarrow>
      (isPrimary (getActiveContacts d uid ! j) \<longrightarrow> isPrimary (getActiveContacts d uid ! i)) \<and>
      (isPrimary (getActiveContacts d uid ! i) = isPrimary (getActiveContacts d uid ! j) \<longrightarrow>
         c_createdAt (getActiveContacts d uid ! i) \<le> c_createdAt (getActiveContacts d uid ! j))) \<and>
   getEmergencyContacts uid d
     = \<lparr>http_status = 200, success = True, message = None,
        data = Some (getActiveContacts d uid)\<rparr>"
proof -
  let ?r = "getActiveContacts d uid"
  have m: "mset ?r = mset (filter (\<lambda>c. c_user c = uid \<and> c_isActive c) (contacts d))"
    by (simp add: getActiveContacts_def)
  have s: "sorted (map contact_order ?r)"
    by (simp add: getActiveContacts_def)
  have p: "(isPrimary (?r ! j) \<longrightarrow> isPrimary (?r ! i)) \<and>
           (isPrimary (?r ! i) = isPrimary (?r ! j) \<longrightarrow> c_createdAt (?r ! i) \<le> c_createdAt (?r ! j))"
    if "i < j" "j < length ?r" for i j
  proof -
    from that have "map contact_order ?r ! i \<le> map contact_order ?r ! j"
      using s by (intro sorted_nth_mono) auto
    with that have "contact_order (?r ! i) \<le> contact_order (?r ! j)"
      by simp
    then show ?thesis
      by (auto simp: contact_order_le)
  qed
  have c: "getEmergencyContacts uid d
     = \<lparr>http_status = 200, success = True, message = None, data = Some ?r\<rparr>"
    by (simp add: getEmergencyContacts_def)
  from m s p c show ?thesis by blast
qed

theorem active_contacts_listing_witness:
  "map c_id (getActiveContacts db_listing 7) = [12, 15, 11] \<and>
   (0::nat) < 1 \<and> 1 < length (getActiveContacts db_listing 7) \<and>
   isPrimary (getActiveContacts db_listing 7 ! 0) \<and>
   \<not> isPrimary (getActiveContacts db_listing 7 ! 1) \<and>
   (1::nat) < 2 \<and> 2 < length (getActiveContacts db_listing 7) \<and>
   isPrimary (getActiveContacts db_listing 7 ! 1) = isPrimary (getActiveContacts db_listing 7 ! 2) \<and>
   c_createdAt (getActiveContacts db_listing 7 ! 1) \<le> c_createdAt (getActiveContacts db_listing 7 ! 2)"
proof -
  have g: "getActiveContacts db_listing 7 =
     [kin 12 7 ''08030000002'' True 40, kin 15 7 ''08030000005'' False 20,
      kin 11 7 ''08030000001'' False 30]"
    by (simp add: getActiveContacts_def db_listing_def kin_def contact_order_def)
  have a: "isPrimary (getActiveContacts db_listing 7 ! 1) = isPrimary (getActiveContacts db_listing 7 ! 2)"
    unfolding g by (simp add: kin_def)
  have l: "(1::nat) < 2 \<and> 2 < length (getActiveContacts db_listing 7)"
    unfolding g by simp
  from active_contacts_listing [of db_listing 7] l a
  have "c_createdAt (getActiveContacts db_listing 7 ! 1) \<le> c_createdAt (getActiveContacts db_listing 7 ! 2)"
    by blast
  then show ?thesis
    unfolding g by (simp add: kin_def)
qed

subsection \<open>Alert transitions\<close>

text \<open>
  C4, as stated: the duration of a resolved alert is never negative. An active alert
  with activation date 1000 that is resolved when the clock reads 500 is answered
  with 200 and gets the duration \<open>-1\<close>.
\<close>

theorem resolve_before_activation_counterexample:
  "findAlert db_alerts 21 7 = Some (alert_of 21 7 1000) \<and>
   status (alert_of 21 7 1000) = Active \<and>
   success (fst (resolveAlert (providers True Resolves) 500 500 7 21 (Some Safe) None db_alerts)) \<and>
   map_option duration
     (data (fst (resolveAlert (providers True Resolves) 500 500 7 21 (Some Safe) None db_alerts)))
     = Some (Some (- 1))"
  by (simp add: resolveAlert_def findAlert_def db_alerts_def alert_of_def resolved_alert_def
        resolveAlert_method_def pre_save_def save_alert_def findUserById_def amaka_def
        alert_valid_def Let_def)

text \<open>
  C4, amended. For an alert of the caller, \<open>resolveAlert\<close> answers "Alert is not active"
  (400) and leaves the store unchanged unless the status is \<open>active\<close>. For an active
  alert that the schema accepts, the user document being present, it answers 200 with
  the alert whose status is \<open>resolved\<close>, whose resolution block holds outcome, notes,
  resolver and date, whose deactivation date is set and whose duration is the whole
  number of seconds from activation to deactivation (rounded down); all other fields
  are as before, and this document is in the store. The duration is not negative
  exactly when the deactivation is not earlier than the activation. The call succeeds
  in no other case.
\<close>

theorem resolve_transition:
  assumes "findAlert d aid uid = Some a"
  shows "(status a \<noteq> Active \<longrightarrow>
            resolveAlert e t1 t2 uid aid oc nt d = (InvalidTransition, d)) \<and>
         (status a = Active \<and> alert_valid a \<and> findUserById d uid \<noteq> None \<longrightarrow>
            (\<exists>a'. resolveAlert e t1 t2 uid aid oc nt d
                     = (\<lparr>http_status = 200, success = True,
                         message = Some ''Alert resolved successfully'', data = Some a'\<rparr>,
                        save_alert a' d) \<and>
                   a' = a\<lparr>status := Resolved,
                          resolution := Some \<lparr>resolvedAt = t1, resolvedBy = uid,
                                              resolutionNotes = nt, outcome = oc\<rparr>,
                          deactivatedAt := Some t2,
                          duration := Some ((t2 - activatedAt a) div 1000)\<rparr> \<and>
                   a' \<in> set (alerts (save_alert a' d)) \<and>
                   1000 * ((t2 - activatedAt a) div 1000) \<le> t2 - activatedAt a \<and>
                   t2 - activatedAt a < 1000 * ((t2 - activatedAt a) div 1000) + 1000 \<and>
                   (0 \<le> (t2 - activatedAt a) div 1000 \<longleftrightarrow> activatedAt a \<le> t2))) \<and>
         (success (fst (resolveAlert e t1 t2 uid aid oc nt d)) \<longrightarrow>
            status a = Active \<and> alert_valid a \<and> findUserById d uid \<noteq> None)"
proof (intro conjI impI)
  assume "status a \<noteq> Active"
  with assms show "resolveAlert e t1 t2 uid aid oc nt d = (InvalidTransition, d)"
    by (simp add: resolveAlert_def)
next
  assume s: "success (fst (resolveAlert e t1 t2 uid aid oc nt d))"
  show 1: "status a = Active"
  proof (rule ccontr)
    assume "status a \<noteq> Active"
    with assms have "resolveAlert e t1 t2 uid aid oc nt d = (InvalidTransition, d)"
      by (simp add: resolveAlert_def)
    with s show False
      by (simp add: InvalidTransition_def failure_def)
  qed
  show 2: "alert_valid a"
  proof (rule ccontr)
    assume "\<not> alert_valid a"
    with assms 1 have "fst (resolveAlert e t1 t2 uid aid oc nt d) = failure 500 ''Error resolving alert''"
      by (simp add: resolveAlert_def)
    with s show False
      by (simp add: failure_def)
  qed
  show "findUserById d uid \<noteq> None"
  proof
    assume "findUserById d uid = None"
    then have "findUserById (save_alert (pre_save (resolveAlert_method t1 t2 uid oc nt a)) d) uid = None"
      by (simp add: findUserById_def)
    with assms 1 2 have "fst (resolveAlert e t1 t2 uid aid oc nt d) = failure 500 ''Error resolving alert''"
      by (simp add: resolveAlert_def Let_def)
    with s show False
      by (simp add: failure_def)
  qed
next
  let ?a' = "pre_save (resolveAlert_method t1 t2 uid oc nt a)"
  assume h: "status a = Active \<and> alert_valid a \<and> findUserById d uid \<noteq> None"
  then obtain u where u: "findUserById (save_alert ?a' d) uid = Some u"
    by (auto simp: findUserById_def)
  from h assms u have r: "resolveAlert e t1 t2 uid aid oc nt d
      = (\<lparr>http_status = 200, success = True,
          message = Some ''Alert resolved successfully'', data = Some ?a'\<rparr>, save_alert ?a' d)"
    by (simp add: resolveAlert_def Let_def)
  have m: "?a' \<in> set (alerts (save_alert ?a' d))"
  proof (rule save_alert_member)
    show "a \<in> set (alerts d)"
      using findAlert_Some [OF assms] by blast
    show "a_id ?a' = a_id a"
      by (simp add: pre_save_resolve)
  qed
  have "1000 * ((t2 - activatedAt a) div 1000) + (t2 - activatedAt a) mod 1000
          = t2 - activatedAt a"
    by (rule mult_div_mod_eq)
  moreover have "0 \<le> (t2 - activatedAt a) mod 1000" and "(t2 - activatedAt a) mod 1000 < 1000"
    by simp_all
  ultimately have f: "1000 * ((t2 - activatedAt a) div 1000) \<le> t2 - activatedAt a"
          "t2 - activatedAt a < 1000 * ((t2 - activatedAt a) div 1000) + 1000"
    by linarith+
  have p: "0 \<le> (t2 - activatedAt a) div 1000 \<longleftrightarrow> activatedAt a \<le> t2"
    by (simp add: pos_imp_zdiv_nonneg_iff)
  show "\<exists>a'. resolveAlert e t1 t2 uid aid oc nt d
                     = (\<lparr>http_status = 200, success = True,
                         message = Some ''Alert resolved successfully'', data = Some a'\<rparr>,
                        save_alert a' d) \<and>
                   a' = a\<lparr>status := Resolved,
                          resolution := Some \<lparr>resolvedAt = t1, resolvedBy = uid,
                                              resolutionNotes = nt, outcome = oc\<rparr>,
                          deactivatedAt := Some t2,
                          duration := Some ((t2 - activatedAt a) div 1000)\<rparr> \<and>
                   a' \<in> set (alerts (save_alert a' d)) \<and>
                   1000 * ((t2 - activatedAt a) div 1000) \<le> t2 - activatedAt a \<and>
                   t2 - activatedAt a < 1000 * ((t2 - activatedAt a) div 1000) + 1000 \<and>
                   (0 \<le> (t2 - activatedAt a) div 1000 \<longleftrightarrow> activatedAt a \<le> t2)"
    using r m f p pre_save_resolve [of t1 t2 uid oc nt a]
    by (intro exI [of _ ?a']) (simp only: simp_thms)
qed

theorem resolve_transition_witness:
  "findAlert db_alerts 21 7 = Some (alert_of 21 7 1000) \<and>
   status (alert_of 21 7 1000) = Active \<and>
   alert_valid (alert_of 21 7 1000) \<and>
   findUserById db_alerts 7 \<noteq> None \<and>
   (\<exists>a'. resolveAlert (providers True Resolves) 61000 61500 7 21 (Some Safe) None db_alerts
            = (\<lparr>http_status = 200, success = True,
                message = Some ''Alert resolved successfully'', data = Some a'\<rparr>,
               save_alert a' db_alerts) \<and>
          status a' = Resolved \<and> deactivatedAt a' = Some 61500 \<and> duration a' = Some 60) \<and>
   findAlert db_alerts 22 7 = Some resolved_alert \<and>
   status resolved_alert \<noteq> Active \<and>
   resolveAlert (providers True Resolves) 9000 9000 7 22 (Some Safe) None db_alerts
     = (InvalidTransition, db_alerts) \<and>
   \<not> success (fst (resolveAlert (providers True Resolves) 9000 9000 7 22 (Some Safe) None
                      db_alerts))"
proof -
  let ?e = "providers True Resolves"
  have f1: "findAlert db_alerts 21 7 = Some (alert_of 21 7 1000)"
    and f2: "findAlert db_alerts 22 7 = Some resolved_alert"
    by (simp_all add: findAlert_def db_alerts_def alert_of_def resolved_alert_def)
  have s1: "status (alert_of 21 7 1000) = Active"
    and t1: "activatedAt (alert_of 21 7 1000) = 1000"
    and s2: "status resolved_alert \<noteq> Active"
    and v: "alert_valid (alert_of 21 7 1000)"
    by (simp_all add: alert_of_def resolved_alert_def alert_valid_def)
  have u: "findUserById db_alerts 7 \<noteq> None"
    by (simp add: findUserById_def db_alerts_def amaka_def)
  from resolve_transition [OF f1, of ?e 61000 61500 "Some Safe" None] s1 v u
  obtain a' where a':
    "resolveAlert ?e 61000 61500 7 21 (Some Safe) None db_alerts
       = (\<lparr>http_status = 200, success = True,
           message = Some ''Alert resolved successfully'', data = Some a'\<rparr>,
          save_alert a' db_alerts)"
    "a' = (alert_of 21 7 1000)
            \<lparr>status := Resolved,
             resolution := Some \<lparr>resolvedAt = 61000, resolvedBy = 7,
                                 resolutionNotes = None, outcome = Some Safe\<rparr>,
             deactivatedAt := Some 61500,
             duration := Some ((61500 - activatedAt (alert_of 21 7 1000)) div 1000)\<rparr>"
    by blast
  from a'(2) have "status a' = Resolved" "deactivatedAt a' = Some 61500" "duration a' = Some 60"
    by (simp_all add: t1)
  with a'(1) have 1: "\<exists>a'. resolveAlert ?e 61000 61500 7 21 (Some Safe) None db_alerts
            = (\<lparr>http_status = 200, success = True,
                message = Some ''Alert resolved successfully'', data = Some a'\<rparr>,
               save_alert a' db_alerts) \<and>
          status a' = Resolved \<and> deactivatedAt a' = Some 61500 \<and> duration a' = Some 60"
    by (intro exI [of _ a']) simp
  from resolve_transition [OF f2, of ?e 9000 9000 "Some Safe" None] s2
  have 2: "resolveAlert ?e 9000 9000 7 22 (Some Safe) None db_alerts = (InvalidTransition, db_alerts)"
    and 3: "\<not> success (fst (resolveAlert ?e 9000 9000 7 22 (Some Safe) None db_alerts))"
    by blast+
  from f1 s1 v u 1 f2 s2 2 3 show ?thesis
    by (intro conjI)
qed

text \<open>
  C2. \<open>markFalseAlarm\<close> has no status guard: on an alert that is already resolved it
  answers 200, overwrites status, deactivation date and duration, and a second call on
  the same alert succeeds again.
\<close>

theorem false_alarm_on_resolved_alert:
  "findAlert db_alerts 22 7 = Some resolved_alert \<and>
   status resolved_alert = Resolved \<and>
   deactivatedAt resolved_alert = Some 5000 \<and>
   duration resolved_alert = Some 4 \<and>
   markFalseAlarm (providers True Resolves) 9000 7 22 db_alerts
     = (\<lparr>http_status = 200, success = True, message = Some ''Alert marked as false alarm'',
         data = Some (resolved_alert\<lparr>status := FalseAlarm, deactivatedAt := Some 9000,
                                      duration := Some 8\<rparr>)\<rparr>,
        db_alerts\<lparr>alerts := [alert_of 21 7 1000,
                              resolved_alert\<lparr>status := FalseAlarm, deactivatedAt := Some 9000,
                                             duration := Some 8\<rparr>]\<rparr>) \<and>
   http_status (fst (markFalseAlarm (providers True Resolves) 9500 7 21
       (snd (markFalseAlarm (providers True Resolves) 9000 7 21 db_alerts)))) = 200"
  by (simp add: markFalseAlarm_def findAlert_def db_alerts_def alert_of_def resolved_alert_def
        markAsFalseAlarm_def pre_save_def save_alert_def alert_valid_def Let_def)

subsection \<open>Emergency contacts\<close>



text \<open>
  C6. User 7 has the primary contact 11 and the contact 12; user 8 has the primary
  contact 13. An update of contact 12 by user 7 with the body
  \<open>{isPrimary: true, user: 8}\<close> is answered with 200: the whole body is written, so
  the contact changes its owner; afterwards user 7 has no primary contact and user 8
  has two. An update with \<open>isPrimary: true\<close> that the validators reject (a name of one
  character), and likewise an addition with \<open>isPrimary: true\<close> and a phone number the
  pattern rejects, is answered with 500 after the primary flag of contact 11 has been
  cleared: user 7 is left without a primary contact.
\<close>

theorem owner_rewritten_on_update:
  "primaries 7 db_two_users = [11] \<and>
   primaries 8 db_two_users = [13] \<and>
   fst (updateEmergencyContact (providers True Resolves) 7 12 (make_primary (Some 8))
          db_two_users)
     = updated (Some ((kin 12 7 ''08030000002'' False 20)\<lparr>c_user := 8, isPrimary := True\<rparr>)) \<and>
   primaries 7 (snd (updateEmergencyContact (providers True Resolves) 7 12
                       (make_primary (Some 8)) db_two_users)) = [] \<and>
   primaries 8 (snd (updateEmergencyContact (providers True Resolves) 7 12
                       (make_primary (Some 8)) db_two_users)) = [12, 13] \<and>
   fst (updateEmergencyContact (providers True Resolves) 7 12
          ((make_primary None)\<lparr>p_name := Some ''K''\<rparr>) db_two_users)
     = failure 500 ''Error updating contact'' \<and>
   primaries 7 (snd (updateEmergencyContact (providers True Resolves) 7 12
                       ((make_primary None)\<lparr>p_name := Some ''K''\<rparr>) db_two_users)) = [] \<and>
   fst (addEmergencyContact (providers True Resolves) 50 7 (sister ''0803'' (Some True))
          db_two_users)
     = failure 500 ''Error adding emergency contact'' \<and>
   primaries 7 (snd (addEmergencyContact (providers True Resolves) 50 7
                       (sister ''0803'' (Some True)) db_two_users)) = []"
  by (simp add: contact_defs example_phones phone_match_def digits_def skip_def)

end
